theory Spec2Isabelle
  imports Main
begin

section \<open>C++ types and \<open>std::decay_t\<close>\<close>

text \<open>
  The header \<open>hpx/execution/algorithms/sync_wait.hpp\<close> computes with types (the
  completion signatures of a sender) before it computes with values. Types are
  a datatype: class and builtin types are opaque names, compared by name.
  Which type converts to which is not fixed by the names; where the code
  depends on it, it is a parameter.
\<close>

datatype ctype =
    Named string
  | Const ctype
  | Volatile ctype
  | LRef ctype
  | RRef ctype
  | Ptr ctype
  | Array ctype

fun remove_reference :: "ctype \<Rightarrow> ctype" where
  "remove_reference (LRef t) = t"
| "remove_reference (RRef t) = t"
| "remove_reference t = t"

fun remove_cv :: "ctype \<Rightarrow> ctype" where
  "remove_cv (Const t) = remove_cv t"
| "remove_cv (Volatile t) = remove_cv t"
| "remove_cv t = t"

text \<open>
  \<open>std::decay_t<T>\<close>: drop the reference, turn an array into a pointer to its
  element, otherwise drop the top-level cv-qualifiers. Function types are left
  out of \<open>ctype\<close>.
\<close>

definition decay :: "ctype \<Rightarrow> ctype" where
  "decay t = (case remove_reference t of Array e \<Rightarrow> Ptr e | u \<Rightarrow> remove_cv u)"

text \<open>\<open>make_decayed_pack<Pack<Ts...>>::type = Pack<std::decay_t<Ts>...>\<close>\<close>

definition make_decayed_pack :: "ctype list \<Rightarrow> ctype list" where
  "make_decayed_pack ts = map decay ts"

definition exception_ptr :: ctype where
  "exception_ptr = Named ''std::exception_ptr''"

section \<open>Values, completions and senders\<close>

text \<open>
  A value travels with the type of the expression that carries it: the
  arguments \<open>Us&&... us\<close> of \<open>set_value\<close> and \<open>Error&& error\<close> of \<open>set_error\<close>.
  The payload type \<open>'v\<close> is left open. For an error of type
  \<open>std::exception_ptr\<close> the payload stands for the exception object the
  pointer refers to.
\<close>

type_synonym 'v typed = "ctype \<times> 'v"

datatype 'v completion =
    SetValue "'v typed list"
  | SetError "'v typed"
  | SetStopped

text \<open>
  A sender, as far as \<open>sync_wait\<close> looks at it: the packs that
  \<open>value_types_of_t<Sender, empty_env, hpx::tuple, meta::pack>\<close> and
  \<open>error_types_of_t<Sender, empty_env, hpx::variant>\<close> yield, the scheduler
  that \<open>get_completion_scheduler<set_value_t>\<close> returns (if the sender has
  one), and the completion signal its operation state sends once started.
\<close>

record ('v, 'sch) sender =
  value_types :: "ctype list list"
  error_types :: "ctype list"
  completion_scheduler :: "'sch option"
  completion :: "'v completion"

section \<open>Result and error type deduction\<close>

datatype static_error =
    NotSingleVariant
  | ValueNotConstructible
  | ErrorNotConstructible

text \<open>
  Modelled from the spec: \<open>single_variant_t\<close> of
  \<open>hpx/execution/algorithms/detail/single_result.hpp\<close> is not among the sources.
  The spec: "exactly one value-signature shape must exist; more than one is a
  static contract violation detected before any execution". The header's
  comment on \<open>single_result_type\<close> agrees: "forcing static_assert ensuring
  variant has exactly one tuple".
\<close>

fun single_variant :: "'a list \<Rightarrow> static_error + 'a" where
  "single_variant [t] = Inr t"
| "single_variant _ = Inl NotSingleVariant"

text \<open>
  Modelled from the spec: \<open>prepend_t\<close> and \<open>unique_t\<close> of
  \<open>hpx/type_support/pack.hpp\<close> are not among the sources. The spec: "a
  deduplicated set of error types the sender may report, with a universal
  opaque captured exception alternative always present first"; so \<open>unique\<close>
  keeps the first occurrence of each type, in order.
\<close>

definition prepend :: "'a list \<Rightarrow> 'a \<Rightarrow> 'a list" where
  "prepend ts t = t # ts"

fun unique_helper :: "'a list \<Rightarrow> 'a list \<Rightarrow> 'a list" where
  "unique_helper seen [] = seen"
| "unique_helper seen (t # ts) =
     (if t \<in> set seen then unique_helper seen ts else unique_helper (seen @ [t]) ts)"

definition unique :: "'a list \<Rightarrow> 'a list" where
  "unique ts = unique_helper [] ts"

text \<open>
  \<open>sync_wait_receiver<Sender>::single_result_type\<close>:
  \<open>make_decayed_pack_t<single_variant_t<predecessor_value_types<hpx::tuple, meta::pack>>>\<close>
\<close>

definition single_result_type :: "('v, 'sch) sender \<Rightarrow> static_error + ctype list" where
  "single_result_type S =
     (case single_variant (value_types S) of
        Inl e \<Rightarrow> Inl e
      | Inr tuple \<Rightarrow> Inr (make_decayed_pack tuple))"

text \<open>
  \<open>sync_wait_receiver<Sender>::error_type\<close>:
  \<open>unique_t<prepend_t<predecessor_error_types<hpx::variant>, std::exception_ptr>>\<close>
\<close>

definition error_type :: "('v, 'sch) sender \<Rightarrow> ctype list" where
  "error_type S = unique (prepend (error_types S) exception_ptr)"

section \<open>Shared completion state and receiver\<close>

text \<open>
  \<open>hpx::variant<hpx::monostate, error_type, result_type> value\<close>. The error
  alternative is itself a variant over \<open>error_type\<close>; its active alternative
  is named by its type (\<open>unique_t\<close> leaves each type once). The result
  alternative holds the one tuple of \<open>single_result_type\<close>, each element with
  its type.
\<close>

datatype 'v cell =
    Monostate
  | ErrorAlt ctype 'v
  | ResultAlt "'v typed list"

datatype tid = Consumer | Producer

record 'v shared_state =
  cond_var :: "tid list"
  mtx :: "tid option"
  set_called :: bool
  value_cell :: "'v cell"

text \<open>\<open>state_type state{}\<close>: the default member initialisers.\<close>

definition fresh_state :: "'v shared_state" where
  "fresh_state = \<lparr>cond_var = [], mtx = None, set_called = False, value_cell = Monostate\<rparr>"

text \<open>
  \<open>r.state.value.template emplace<error_type>(HPX_FORWARD(Error, error))\<close> builds
  the inner variant from the error, by the converting constructor of the
  variant. Overload resolution on the argument selects the alternative: an
  alternative of the argument's own decayed type is an exact match and wins.
  For any other argument the choice rests on the conversions the program's
  types have, which the header does not show: \<open>'v converting\<close> is that part
  of overload resolution, a parameter. Given the decayed type of the argument
  and the alternatives it answers with the alternative selected and the
  conversion of the value, or with \<open>None\<close> when no alternative is
  constructible from the argument or the choice is ambiguous; the expression is
  then ill-formed. The receiver adds nothing of its own: it has no capture of
  the error into \<open>std::exception_ptr\<close>.
\<close>

type_synonym 'v converting = "ctype \<Rightarrow> ctype list \<Rightarrow> (ctype \<times> ('v \<Rightarrow> 'v)) option"

definition emplace_error ::
  "'v converting \<Rightarrow> ctype list \<Rightarrow> 'v typed \<Rightarrow> static_error + 'v cell" where
  "emplace_error cv alts err =
     (if decay (fst err) \<in> set alts then Inr (ErrorAlt (decay (fst err)) (snd err))
      else case cv (decay (fst err)) alts of
        None \<Rightarrow> Inl ErrorNotConstructible
      | Some (a, f) \<Rightarrow>
          (if a \<in> set alts then Inr (ErrorAlt a (f (snd err)))
           else Inl ErrorNotConstructible))"

text \<open>
  \<open>r.state.value.template emplace<result_type>(hpx::forward_as_tuple(HPX_FORWARD(Us, us)...))\<close>
  builds the tuple of \<open>single_result_type\<close> from a tuple of references: each
  element is copied or moved into an object of the decayed type. It is
  ill-formed when the arities differ or an element is not constructible. An
  element is constructible from an argument of its own type, whatever the
  argument's reference and cv-qualifiers; the model accepts these arguments
  and no others.
\<close>

definition emplace_result :: "ctype list \<Rightarrow> 'v typed list \<Rightarrow> static_error + 'v cell" where
  "emplace_result tuple us =
     (if map (\<lambda>u. decay (fst u)) us = tuple then Inr (ResultAlt (zip tuple (map snd us)))
      else Inl ValueNotConstructible)"

text \<open>
  The three \<open>tag_invoke\<close> overloads of the receiver (\<open>set_value_t\<close>,
  \<open>set_error_t\<close>, \<open>set_stopped_t\<close>): what each writes to \<open>state.value\<close> before
  it calls \<open>signal_set_called\<close>; \<open>None\<close> when it writes nothing.
\<close>

fun receiver_write ::
  "'v converting \<Rightarrow> ctype list \<Rightarrow> ctype list \<Rightarrow> 'v completion \<Rightarrow>
   static_error + 'v cell option" where
  "receiver_write cv alts tuple (SetValue us) =
     (case emplace_result tuple us of Inl e \<Rightarrow> Inl e | Inr c \<Rightarrow> Inr (Some c))"
| "receiver_write cv alts tuple (SetError err) =
     (case emplace_error cv alts err of Inl e \<Rightarrow> Inl e | Inr c \<Rightarrow> Inr (Some c))"
| "receiver_write cv alts tuple SetStopped = Inr None"

section \<open>Resolving the outcome\<close>

datatype 'v raised =
    Rethrown 'v
  | Thrown ctype 'v

datatype 'v outcome =
    Returned "'v typed list option"
  | Raised "'v raised"

text \<open>
  \<open>sync_wait_error_visitor\<close>: the non-template overload takes the
  \<open>std::exception_ptr\<close> alternative and rethrows the exception it refers to;
  the template overload throws any other alternative's value.
\<close>

definition sync_wait_error_visitor :: "ctype \<Rightarrow> 'v \<Rightarrow> 'v raised" where
  "sync_wait_error_visitor t v = (if t = exception_ptr then Rethrown v else Thrown t v)"

fun get_value :: "'v cell \<Rightarrow> 'v outcome" where
  "get_value (ResultAlt tuple) = Returned (Some tuple)"
| "get_value (ErrorAlt t v) = Raised (sync_wait_error_visitor t v)"
| "get_value Monostate = Returned None"

section \<open>The two threads\<close>

text \<open>
  The caller runs \<open>tag_fallback_invoke\<close>: \<open>start(op_state)\<close>, then \<open>state.wait()\<close>
  (unlocked check of \<open>set_called\<close>, lock, check again, \<open>cond_var.wait(l)\<close>, unlock
  at the end of the block), then \<open>state.get_value()\<close>. The producer runs one
  completion callback: the write to \<open>state.value\<close> (none for \<open>set_stopped\<close>),
  then \<open>signal_set_called\<close> (lock, \<open>set_called = true\<close>, \<open>notify_one\<close>, unlock
  when \<open>l\<close> goes out of scope). Each program counter names the statement the
  thread executes next.
\<close>

datatype consumer_pc =
    C_start | C_check | C_lock | C_recheck | C_cond_wait | C_blocked | C_unlock
  | C_get_value | C_done

datatype producer_pc =
    P_emplace | P_lock | P_set_called | P_notify | P_unlock | P_done

record 'v config =
  state :: "'v shared_state"
  consumer :: consumer_pc
  producer :: producer_pc
  signal :: "'v cell option"
  delivered :: "'v outcome list"

text \<open>
  Modelled from the spec: \<open>hpx::spinlock\<close> and \<open>hpx::condition_variable\<close> are
  not among the sources. The lock is taken only when free. \<open>cond_var.wait(l)\<close>
  releases the lock and enqueues the caller in one step, "blocks on the
  condition variable until notified" (it does not wake unless notified), and
  returns once it holds the lock again; \<open>notify_one\<close> releases the first
  waiter, if there is one. Accesses to the atomic \<open>set_called\<close> are single
  steps. The producer cannot move before the caller has started the operation.
\<close>

definition consumer_step :: "'v config \<Rightarrow> 'v config option" where
  "consumer_step c =
     (case consumer c of
        C_start \<Rightarrow> Some (c\<lparr>consumer := C_check\<rparr>)
      | C_check \<Rightarrow>
          Some (c\<lparr>consumer := (if set_called (state c) then C_get_value else C_lock)\<rparr>)
      | C_lock \<Rightarrow>
          (if mtx (state c) = None
           then Some (c\<lparr>state := (state c)\<lparr>mtx := Some Consumer\<rparr>, consumer := C_recheck\<rparr>)
           else None)
      | C_recheck \<Rightarrow>
          Some (c\<lparr>consumer := (if set_called (state c) then C_unlock else C_cond_wait)\<rparr>)
      | C_cond_wait \<Rightarrow>
          Some (c\<lparr>state := (state c)\<lparr>mtx := None, cond_var := cond_var (state c) @ [Consumer]\<rparr>,
                  consumer := C_blocked\<rparr>)
      | C_blocked \<Rightarrow>
          (if Consumer \<notin> set (cond_var (state c)) \<and> mtx (state c) = None
           then Some (c\<lparr>state := (state c)\<lparr>mtx := Some Consumer\<rparr>, consumer := C_unlock\<rparr>)
           else None)
      | C_unlock \<Rightarrow>
          Some (c\<lparr>state := (state c)\<lparr>mtx := None\<rparr>, consumer := C_get_value\<rparr>)
      | C_get_value \<Rightarrow>
          Some (c\<lparr>delivered := delivered c @ [get_value (value_cell (state c))],
                  consumer := C_done\<rparr>)
      | C_done \<Rightarrow> None)"

definition producer_step :: "'v config \<Rightarrow> 'v config option" where
  "producer_step c =
     (if consumer c = C_start then None
      else case producer c of
        P_emplace \<Rightarrow>
          (case signal c of
             Some w \<Rightarrow> Some (c\<lparr>state := (state c)\<lparr>value_cell := w\<rparr>, producer := P_lock\<rparr>)
           | None \<Rightarrow> Some (c\<lparr>producer := P_lock\<rparr>))
      | P_lock \<Rightarrow>
          (if mtx (state c) = None
           then Some (c\<lparr>state := (state c)\<lparr>mtx := Some Producer\<rparr>, producer := P_set_called\<rparr>)
           else None)
      | P_set_called \<Rightarrow>
          Some (c\<lparr>state := (state c)\<lparr>set_called := True\<rparr>, producer := P_notify\<rparr>)
      | P_notify \<Rightarrow>
          Some (c\<lparr>state := (state c)\<lparr>cond_var := drop 1 (cond_var (state c))\<rparr>,
                  producer := P_unlock\<rparr>)
      | P_unlock \<Rightarrow>
          Some (c\<lparr>state := (state c)\<lparr>mtx := None\<rparr>, producer := P_done\<rparr>)
      | P_done \<Rightarrow> None)"

fun step :: "tid \<Rightarrow> 'v config \<Rightarrow> 'v config option" where
  "step Consumer c = consumer_step c"
| "step Producer c = producer_step c"

fun other :: "tid \<Rightarrow> tid" where
  "other Consumer = Producer"
| "other Producer = Consumer"

text \<open>
  A schedule is the list of threads the machine would like to run, one per
  step. A thread that cannot move (it waits for the lock or for the
  notification, or it has finished) leaves the step to the other one; when
  neither can move the run is over. Every interleaving of the two threads is
  the run of the schedule that lists its steps.
\<close>

definition sched_step :: "tid \<Rightarrow> 'v config \<Rightarrow> 'v config option" where
  "sched_step t c = (case step t c of Some c' \<Rightarrow> Some c' | None \<Rightarrow> step (other t) c)"

fun exec :: "tid list \<Rightarrow> 'v config \<Rightarrow> 'v config" where
  "exec [] c = c"
| "exec (t # ts) c = (case sched_step t c of None \<Rightarrow> c | Some c' \<Rightarrow> exec ts c')"

text \<open>
  The configuration when \<open>tag_fallback_invoke\<close> has connected the sender to a
  receiver on a fresh state. A \<open>set_stopped\<close> callback has no write and begins
  with \<open>signal_set_called\<close>.
\<close>

definition init_config :: "'v cell option \<Rightarrow> 'v config" where
  "init_config w =
     \<lparr>state = fresh_state, consumer = C_start,
      producer = (case w of None \<Rightarrow> P_lock | Some _ \<Rightarrow> P_emplace),
      signal = w, delivered = []\<rparr>"

section \<open>The blocking call\<close>

text \<open>
  \<open>tag_fallback_invoke(sync_wait_t, Sender&&)\<close>: instantiating
  \<open>sync_wait_receiver<Sender>\<close> and its callback either fails statically or
  gives the run of the two threads. The result lists what the call has handed
  to its caller when the schedule ends.
\<close>

definition tag_fallback_invoke ::
  "'v converting \<Rightarrow> ('v, 'sch) sender \<Rightarrow> tid list \<Rightarrow> static_error + 'v outcome list" where
  "tag_fallback_invoke cv S sched =
     (case single_result_type S of
        Inl e \<Rightarrow> Inl e
      | Inr tuple \<Rightarrow>
          (case receiver_write cv (error_type S) tuple (completion S) of
             Inl e \<Rightarrow> Inl e
           | Inr w \<Rightarrow> Inr (delivered (exec sched (init_config w)))))"

text \<open>
  Modelled from the spec: \<open>is_completion_scheduler_tag_invocable_v\<close> and
  \<open>get_completion_scheduler\<close> are not among the sources. The spec: "the sender
  exposes a completion scheduler for its value channel, and that scheduler
  supplies its own specialized blocking-wait implementation". The table
  \<open>impls\<close> gives, for a scheduler, its \<open>tag_invoke(sync_wait_t, scheduler, sender)\<close>
  when it has one.

  \<open>tag_override_invoke(sync_wait_t, Sender&&)\<close> is \<open>None\<close> when its constraint
  fails and the overload is not viable.
\<close>

type_synonym ('v, 'sch) sync_wait_impls =
  "'sch \<Rightarrow> (('v, 'sch) sender \<Rightarrow> static_error + 'v outcome list) option"

definition is_completion_scheduler_tag_invocable ::
  "('v, 'sch) sync_wait_impls \<Rightarrow> ('v, 'sch) sender \<Rightarrow> bool" where
  "is_completion_scheduler_tag_invocable impls S =
     (case completion_scheduler S of None \<Rightarrow> False | Some sch \<Rightarrow> impls sch \<noteq> None)"

definition tag_override_invoke ::
  "('v, 'sch) sync_wait_impls \<Rightarrow> ('v, 'sch) sender \<Rightarrow> (static_error + 'v outcome list) option" where
  "tag_override_invoke impls S =
     (case completion_scheduler S of
        None \<Rightarrow> None
      | Some scheduler \<Rightarrow>
          (case impls scheduler of None \<Rightarrow> None | Some impl \<Rightarrow> Some (impl S)))"

text \<open>
  Modelled from the spec: \<open>tag_priority\<close> of
  \<open>hpx/functional/detail/tag_priority_invoke.hpp\<close> is not among the sources. The
  spec: "Two-tier, resolved at compile time: Tier 1 (preferred) ... delegate
  to it; Tier 2 (fallback): the generic sequence, used whenever no specialized
  override exists".
\<close>

datatype tier = OverrideTier | FallbackTier

definition dispatch :: "('v, 'sch) sync_wait_impls \<Rightarrow> ('v, 'sch) sender \<Rightarrow> tier" where
  "dispatch impls S =
     (case tag_override_invoke impls S of Some _ \<Rightarrow> OverrideTier | None \<Rightarrow> FallbackTier)"

definition sync_wait ::
  "'v converting \<Rightarrow> ('v, 'sch) sync_wait_impls \<Rightarrow> ('v, 'sch) sender \<Rightarrow> tid list \<Rightarrow>
   static_error + 'v outcome list" where
  "sync_wait cv impls S sched =
     (case tag_override_invoke impls S of
        Some r \<Rightarrow> r
      | None \<Rightarrow> tag_fallback_invoke cv S sched)"

text \<open>
  \<open>tag_fallback_invoke(sync_wait_t)\<close> returns \<open>partial_algorithm<sync_wait_t>{}\<close>.

  Modelled from the spec: \<open>partial_algorithm\<close> of
  \<open>hpx/execution/algorithms/detail/partial_algorithm.hpp\<close> is not among the
  sources. The spec: "a deferred/partial stage object that, when later combined
  with a sender, performs the full sequence".
\<close>

datatype algorithm_tag = SyncWaitTag

datatype partial_algorithm = PartialAlgorithm algorithm_tag

definition sync_wait_deferred :: partial_algorithm where
  "sync_wait_deferred = PartialAlgorithm SyncWaitTag"

fun invoke_tag ::
  "algorithm_tag \<Rightarrow> 'v converting \<Rightarrow> ('v, 'sch) sync_wait_impls \<Rightarrow> ('v, 'sch) sender \<Rightarrow>
   tid list \<Rightarrow> static_error + 'v outcome list" where
  "invoke_tag SyncWaitTag cv impls S sched = sync_wait cv impls S sched"

fun pipe ::
  "'v converting \<Rightarrow> ('v, 'sch) sync_wait_impls \<Rightarrow> ('v, 'sch) sender \<Rightarrow> partial_algorithm \<Rightarrow>
   tid list \<Rightarrow> static_error + 'v outcome list" where
  "pipe cv impls S (PartialAlgorithm tag) sched = invoke_tag tag cv impls S sched"

section \<open>Predicates of the statements\<close>

text \<open>
  Where each thread is. The caller holds the lock from the second check to the
  end of the block in \<open>wait\<close>, and \<open>wait\<close> has returned once the caller is at
  \<open>get_value\<close>. The producer holds the lock inside \<open>signal_set_called\<close>; its
  callback has fired once \<open>set_called = true\<close> is executed, and it has notified
  once \<open>notify_one\<close> is.
\<close>

fun holds_lock :: "consumer_pc \<Rightarrow> bool" where
  "holds_lock C_recheck = True"
| "holds_lock C_cond_wait = True"
| "holds_lock C_unlock = True"
| "holds_lock _ = False"

fun released :: "consumer_pc \<Rightarrow> bool" where
  "released C_get_value = True"
| "released C_done = True"
| "released _ = False"

fun in_signal :: "producer_pc \<Rightarrow> bool" where
  "in_signal P_set_called = True"
| "in_signal P_notify = True"
| "in_signal P_unlock = True"
| "in_signal _ = False"

fun fired :: "producer_pc \<Rightarrow> bool" where
  "fired P_notify = True"
| "fired P_unlock = True"
| "fired P_done = True"
| "fired _ = False"

fun notified :: "producer_pc \<Rightarrow> bool" where
  "notified P_unlock = True"
| "notified P_done = True"
| "notified _ = False"

text \<open>What \<open>state.value\<close> holds after the callback.\<close>

fun written :: "'v cell option \<Rightarrow> 'v cell" where
  "written None = Monostate"
| "written (Some w) = w"

text \<open>
  The invariant of the run: the shared state is a function of the two program
  counters, and the counters exclude each other where the lock does.
\<close>

definition wait_inv :: "'v cell option \<Rightarrow> 'v config \<Rightarrow> bool" where
  "wait_inv w c \<longleftrightarrow>
     signal c = w \<and>
     mtx (state c) =
       (if holds_lock (consumer c) then Some Consumer
        else if in_signal (producer c) then Some Producer else None) \<and>
     \<not> (holds_lock (consumer c) \<and> in_signal (producer c)) \<and>
     set_called (state c) = fired (producer c) \<and>
     cond_var (state c) =
       (if consumer c = C_blocked \<and> \<not> notified (producer c) then [Consumer] else []) \<and>
     (consumer c = C_cond_wait \<longrightarrow> \<not> fired (producer c)) \<and>
     (consumer c = C_unlock \<or> released (consumer c) \<longrightarrow> fired (producer c)) \<and>
     (producer c = P_emplace \<longrightarrow> w \<noteq> None) \<and>
     value_cell (state c) = (if producer c = P_emplace then Monostate else written w) \<and>
     delivered c = (if consumer c = C_done then [get_value (written w)] else [])"

text \<open>The number of statements each thread has left, at most.\<close>

fun consumer_rank :: "consumer_pc \<Rightarrow> nat" where
  "consumer_rank C_start = 8"
| "consumer_rank C_check = 7"
| "consumer_rank C_lock = 6"
| "consumer_rank C_recheck = 5"
| "consumer_rank C_cond_wait = 4"
| "consumer_rank C_blocked = 3"
| "consumer_rank C_unlock = 2"
| "consumer_rank C_get_value = 1"
| "consumer_rank C_done = 0"

fun producer_rank :: "producer_pc \<Rightarrow> nat" where
  "producer_rank P_emplace = 5"
| "producer_rank P_lock = 4"
| "producer_rank P_set_called = 3"
| "producer_rank P_notify = 2"
| "producer_rank P_unlock = 1"
| "producer_rank P_done = 0"

definition rank :: "'v config \<Rightarrow> nat" where
  "rank c = consumer_rank (consumer c) + producer_rank (producer c)"

text \<open>
  A type is valid when a reference occurs at most at its top; it is
  unqualified when it is neither a reference nor cv-qualified at its top.
\<close>

fun object_type :: "ctype \<Rightarrow> bool" where
  "object_type (Named n) = True"
| "object_type (Const t) = object_type t"
| "object_type (Volatile t) = object_type t"
| "object_type (Ptr t) = object_type t"
| "object_type (Array t) = object_type t"
| "object_type (LRef t) = False"
| "object_type (RRef t) = False"

definition valid_type :: "ctype \<Rightarrow> bool" where
  "valid_type t = object_type (remove_reference t)"

fun unqualified :: "ctype \<Rightarrow> bool" where
  "unqualified (Const t) = False"
| "unqualified (Volatile t) = False"
| "unqualified (LRef t) = False"
| "unqualified (RRef t) = False"
| "unqualified t = True"

section \<open>Example senders\<close>

text \<open>
  Payloads are numbers. The first sender declares one value signature,
  \<open>set_value_t(const int&, std::string)\<close>, and one error type, and completes
  with two values; the others vary it.
\<close>

definition no_impls :: "(nat, unit) sync_wait_impls" where
  "no_impls = (\<lambda>sch. None)"

text \<open>
  Two programs: one whose types have no conversion to an alternative, and one
  where \<open>int\<close> converts to \<open>long\<close>, the value kept.
\<close>

definition no_conversions :: "nat converting" where
  "no_conversions = (\<lambda>t alts. None)"

definition int_to_long :: "nat converting" where
  "int_to_long =
     (\<lambda>t alts. if t = Named ''int'' \<and> Named ''long'' \<in> set alts
        then Some (Named ''long'', \<lambda>v. v) else None)"

definition value_sender :: "(nat, unit) sender" where
  "value_sender =
     \<lparr>value_types = [[LRef (Const (Named ''int'')), Named ''std::string'']],
      error_types = [Named ''std::error_code''],
      completion_scheduler = None,
      completion =
        SetValue [(LRef (Const (Named ''int'')), 1), (RRef (Named ''std::string''), 97)]\<rparr>"

definition typed_error_sender :: "(nat, unit) sender" where
  "typed_error_sender =
     value_sender\<lparr>completion := SetError (LRef (Named ''std::error_code''), 7)\<rparr>"

definition stopped_sender :: "(nat, unit) sender" where
  "stopped_sender = value_sender\<lparr>completion := SetStopped\<rparr>"

definition two_shapes_sender :: "(nat, unit) sender" where
  "two_shapes_sender =
     value_sender\<lparr>value_types := [[Named ''int''], [Named ''std::string'']]\<rparr>"

definition repeated_errors_sender :: "(nat, unit) sender" where
  "repeated_errors_sender =
     value_sender\<lparr>error_types :=
       [Named ''std::error_code'', exception_ptr, Named ''std::error_code'']\<rparr>"

definition undeclared_error_sender :: "(nat, unit) sender" where
  "undeclared_error_sender =
     value_sender\<lparr>completion := SetError (Named ''my_error'', 7)\<rparr>"

definition widened_error_sender :: "(nat, unit) sender" where
  "widened_error_sender =
     value_sender\<lparr>error_types := [Named ''long''], completion := SetError (Named ''int'', 7)\<rparr>"

definition opaque_error_sender :: "(nat, unit) sender" where
  "opaque_error_sender = value_sender\<lparr>completion := SetError (exception_ptr, 7)\<rparr>"

definition unit_sender :: "(nat, unit) sender" where
  "unit_sender = value_sender\<lparr>value_types := [[]], completion := SetValue []\<rparr>"

definition scheduled_sender :: "(nat, unit) sender" where
  "scheduled_sender = two_shapes_sender\<lparr>completion_scheduler := Some ()\<rparr>"

definition run_loop_impls :: "(nat, unit) sync_wait_impls" where
  "run_loop_impls = (\<lambda>sch. Some (\<lambda>S. Inr [Returned (Some [(Named ''int'', 5)])]))"

text \<open>
  Three schedules: the callback completes before the caller looks at the flag;
  the caller blocks on the condition variable before the callback starts; the
  two alternate.
\<close>

definition producer_first :: "tid list" where
  "producer_first =
     [Consumer, Producer, Producer, Producer, Producer, Producer, Producer,
      Consumer, Consumer, Consumer, Consumer, Consumer, Consumer]"

definition consumer_first :: "tid list" where
  "consumer_first =
     [Consumer, Consumer, Consumer, Consumer, Consumer, Consumer, Consumer,
      Producer, Producer, Producer, Producer, Producer, Producer]"

definition alternating :: "tid list" where
  "alternating =
     [Consumer, Producer, Consumer, Producer, Consumer, Producer, Consumer,
      Producer, Consumer, Producer, Consumer, Producer, Consumer]"

section \<open>The run of the two threads\<close>

text \<open>
  The invariant holds at the start and every step of either thread keeps it;
  every step uses up rank; a configuration where neither thread can move has
  both at their end.
\<close>

lemma wait_inv_init: "wait_inv w (init_config w)"
  by (cases w) (simp_all add: wait_inv_def init_config_def fresh_state_def)

lemma wait_inv_consumer_step:
  assumes "wait_inv w c" and "consumer_step c = Some c'"
  shows "wait_inv w c'"
  using assms
  by (cases "consumer c"; cases "producer c")
     (clarsimp simp: wait_inv_def consumer_step_def split: if_splits)+

lemma wait_inv_producer_step:
  assumes "wait_inv w c" and "producer_step c = Some c'"
  shows "wait_inv w c'"
  using assms
  by (cases "consumer c"; cases "producer c")
     (clarsimp simp: wait_inv_def producer_step_def split: if_splits option.splits)+

lemma wait_inv_step: "wait_inv w c \<Longrightarrow> step t c = Some c' \<Longrightarrow> wait_inv w c'"
  by (cases t) (auto intro: wait_inv_consumer_step wait_inv_producer_step)

lemma wait_inv_sched_step: "wait_inv w c \<Longrightarrow> sched_step t c = Some c' \<Longrightarrow> wait_inv w c'"
  unfolding sched_step_def by (cases "step t c") (auto intro: wait_inv_step)

lemma rank_consumer_step: "consumer_step c = Some c' \<Longrightarrow> rank c' < rank c"
  by (cases "consumer c") (auto simp: consumer_step_def rank_def split: if_splits)

lemma rank_producer_step: "producer_step c = Some c' \<Longrightarrow> rank c' < rank c"
  by (cases "producer c") (auto simp: producer_step_def rank_def split: if_splits option.splits)

lemma rank_step: "step t c = Some c' \<Longrightarrow> rank c' < rank c"
  by (cases t) (auto intro: rank_consumer_step rank_producer_step)

lemma rank_sched_step: "sched_step t c = Some c' \<Longrightarrow> rank c' < rank c"
  unfolding sched_step_def by (cases "step t c") (auto intro: rank_step)

lemma stuck_done:
  assumes "wait_inv w c" and "consumer_step c = None" and "producer_step c = None"
  shows "consumer c = C_done \<and> producer c = P_done"
  using assms
  by (cases "consumer c"; cases "producer c")
     (simp_all add: wait_inv_def consumer_step_def producer_step_def split: if_splits option.splits)

lemma sched_stuck_done:
  assumes "wait_inv w c" and "sched_step t c = None"
  shows "consumer c = C_done \<and> producer c = P_done"
proof -
  from assms(2) have "step t c = None" and "step (other t) c = None"
    by (auto simp: sched_step_def split: option.splits)
  then have "consumer_step c = None" and "producer_step c = None"
    by (cases t; simp)+
  with assms(1) show ?thesis by (rule stuck_done)
qed

lemma wait_inv_exec: "wait_inv w c \<Longrightarrow> wait_inv w (exec sched c)"
proof (induction sched arbitrary: c)
  case Nil
  then show ?case by simp
next
  case (Cons t ts)
  then show ?case
    by (cases "sched_step t c") (auto dest: wait_inv_sched_step)
qed

lemma rank_zero_done: "rank c = 0 \<Longrightarrow> consumer c = C_done \<and> producer c = P_done"
  by (cases "consumer c"; cases "producer c") (simp_all add: rank_def)

lemma exec_done:
  "wait_inv w c \<Longrightarrow> rank c \<le> length sched \<Longrightarrow>
   consumer (exec sched c) = C_done \<and> producer (exec sched c) = P_done"
proof (induction sched arbitrary: c)
  case Nil
  then show ?case by (simp add: rank_zero_done)
next
  case (Cons t ts)
  show ?case
  proof (cases "sched_step t c")
    case None
    with Cons.prems(1) show ?thesis by (simp add: sched_stuck_done)
  next
    case (Some c')
    have "wait_inv w c'"
      using Cons.prems(1) Some by (rule wait_inv_sched_step)
    moreover have "rank c' < rank c"
      using Some by (rule rank_sched_step)
    then have "rank c' \<le> length ts"
      using Cons.prems(2) by simp
    ultimately have "consumer (exec ts c') = C_done \<and> producer (exec ts c') = P_done"
      by (rule Cons.IH)
    with Some show ?thesis by simp
  qed
qed

lemma rank_init: "rank (init_config w) \<le> 13"
  by (cases w) (simp_all add: rank_def init_config_def)

lemma run_inv: "wait_inv w (exec sched (init_config w))"
  by (simp add: wait_inv_exec wait_inv_init)

lemma run_done:
  assumes "13 \<le> length sched"
  shows "consumer (exec sched (init_config w)) = C_done \<and>
         producer (exec sched (init_config w)) = P_done"
proof -
  have "rank (init_config w) \<le> length sched"
    using rank_init [of w] assms by linarith
  with wait_inv_init show ?thesis by (rule exec_done)
qed

lemma run_delivered:
  "delivered (exec sched (init_config w)) =
     (if consumer (exec sched (init_config w)) = C_done then [get_value (written w)] else [])"
proof -
  have "wait_inv w (exec sched (init_config w))"
    by (rule run_inv)
  then show ?thesis
    unfolding wait_inv_def by blast
qed

section \<open>Type deduction and the generic engine\<close>

lemma unique_helper_set: "set (unique_helper seen ts) = set seen \<union> set ts"
  by (induction seen ts rule: unique_helper.induct) auto

lemma unique_helper_distinct: "distinct seen \<Longrightarrow> distinct (unique_helper seen ts)"
  by (induction seen ts rule: unique_helper.induct) auto

lemma unique_helper_prefix: "take (length seen) (unique_helper seen ts) = seen"
proof (induction seen ts rule: unique_helper.induct)
  case (1 seen)
  then show ?case by simp
next
  case (2 seen t ts)
  show ?case
  proof (cases "t \<in> set seen")
    case True
    with 2 show ?thesis by simp
  next
    case False
    with 2 have "take (length (seen @ [t])) (unique_helper (seen @ [t]) ts) = seen @ [t]"
      by simp
    then have "take (length seen) (take (length (seen @ [t])) (unique_helper (seen @ [t]) ts)) = seen"
      by simp
    then have "take (length seen) (unique_helper (seen @ [t]) ts) = seen"
      by (simp add: min_def)
    with False show ?thesis by simp
  qed
qed

lemma unique_set: "set (unique ts) = set ts"
  by (simp add: unique_def unique_helper_set)

lemma unique_distinct: "distinct (unique ts)"
  by (simp add: unique_def unique_helper_distinct)

lemma unique_Cons: "\<exists>rest. unique (t # ts) = t # rest"
proof -
  have "take (length [t]) (unique_helper [t] ts) = [t]"
    by (rule unique_helper_prefix)
  then have "take 1 (unique (t # ts)) = [t]"
    by (simp add: unique_def)
  then show ?thesis
    by (cases "unique (t # ts)") simp_all
qed

lemma remove_cv_unqualified: "object_type t \<Longrightarrow> unqualified (remove_cv t)"
  by (induction t) simp_all

lemma decay_unqualified: "valid_type t \<Longrightarrow> unqualified (decay t)"
  by (cases "remove_reference t") (simp_all add: decay_def valid_type_def remove_cv_unqualified)

lemma override_None:
  "tag_override_invoke impls S = None \<longleftrightarrow> \<not> is_completion_scheduler_tag_invocable impls S"
  by (simp add: tag_override_invoke_def is_completion_scheduler_tag_invocable_def
      split: option.splits)

lemma fallback_run:
  assumes "value_types S = [ts]"
    and "receiver_write cv (error_type S) (map decay ts) (completion S) = Inr w"
  shows "tag_fallback_invoke cv S sched = Inr (delivered (exec sched (init_config w)))"
  using assms by (simp add: tag_fallback_invoke_def single_result_type_def make_decayed_pack_def)

lemma fallback_delivers:
  assumes "value_types S = [ts]"
    and "receiver_write cv (error_type S) (map decay ts) (completion S) = Inr w"
    and "13 \<le> length sched"
  shows "tag_fallback_invoke cv S sched = Inr [get_value (written w)]"
proof -
  have "consumer (exec sched (init_config w)) = C_done"
    using assms(3) by (simp add: run_done)
  then have "delivered (exec sched (init_config w)) = [get_value (written w)]"
    by (simp add: run_delivered)
  with assms(1,2) show ?thesis by (simp add: fallback_run)
qed

lemma fallback_at_most_once:
  assumes "value_types S = [ts]"
    and "receiver_write cv (error_type S) (map decay ts) (completion S) = Inr w"
  shows "tag_fallback_invoke cv S sched = Inr [] \<or>
         tag_fallback_invoke cv S sched = Inr [get_value (written w)]"
  using assms by (simp add: fallback_run run_delivered)

lemma zip_decayed:
  "map (\<lambda>u. decay (fst u)) us = tuple \<Longrightarrow>
   zip tuple (map snd us) = map (\<lambda>u. (decay (fst u), snd u)) us"
  by (induction us arbitrary: tuple) auto

lemma sync_wait_fallback:
  "\<not> is_completion_scheduler_tag_invocable impls S \<Longrightarrow>
   sync_wait cv impls S sched = tag_fallback_invoke cv S sched"
  by (simp add: sync_wait_def override_None [symmetric])

lemma single_variant_Inr: "single_variant xs = Inr t \<longleftrightarrow> xs = [t]"
  by (cases xs rule: single_variant.cases) auto

lemma single_variant_many: "1 < card (set xs) \<Longrightarrow> single_variant xs = Inl NotSingleVariant"
  by (cases xs rule: single_variant.cases) auto

lemma single_result_type_Inr:
  "single_result_type S = Inr tuple \<longleftrightarrow> (\<exists>ts. value_types S = [ts] \<and> tuple = map decay ts)"
  by (auto simp: single_result_type_def make_decayed_pack_def single_variant_Inr
      split: sum.splits)

lemma fallback_Inr_single:
  "tag_fallback_invoke cv S sched = Inr r \<Longrightarrow> \<exists>ts. value_types S = [ts]"
  by (auto simp: tag_fallback_invoke_def single_result_type_def single_variant_Inr
      split: sum.splits)

section \<open>Properties of the blocking call\<close>

text \<open>
  The statements below are about the generic engine: the sender has no
  scheduler that overrides \<open>sync_wait\<close>, and it declares one value signature,
  as \<open>single_result_type\<close> demands. A schedule of 13 steps or more lets both
  threads finish, whatever its order.
\<close>

text \<open>
  C1. A sender that completes with \<open>set_value(us...)\<close>, the values matching its
  declared signature up to decay: once both threads have run, \<open>sync_wait\<close> has
  returned exactly one result, the engaged optional holding the tuple of the
  values, each at its decayed type; before that it has returned nothing. The
  decayed type of a valid type is neither a reference nor cv-qualified.
\<close>

theorem sync_wait_value:
  assumes "\<not> is_completion_scheduler_tag_invocable impls S"
    and "value_types S = [ts]"
    and "completion S = SetValue us"
    and "map (\<lambda>u. decay (fst u)) us = map decay ts"
  shows "(13 \<le> length sched \<longrightarrow>
          sync_wait cv impls S sched =
            Inr [Returned (Some (map (\<lambda>u. (decay (fst u), snd u)) us))]) \<and>
         (sync_wait cv impls S sched = Inr [] \<or>
          sync_wait cv impls S sched =
            Inr [Returned (Some (map (\<lambda>u. (decay (fst u), snd u)) us))]) \<and>
         (\<forall>u \<in> set us. valid_type (fst u) \<longrightarrow> unqualified (decay (fst u)))"
proof -
  let ?r = "map (\<lambda>u. (decay (fst u), snd u)) us"
  have w: "receiver_write cv (error_type S) (map decay ts) (completion S) = Inr (Some (ResultAlt ?r))"
    using assms(3,4) by (simp add: emplace_result_def zip_decayed)
  have "13 \<le> length sched \<longrightarrow> tag_fallback_invoke cv S sched = Inr [Returned (Some ?r)]"
    using fallback_delivers [OF assms(2) w] by simp
  moreover have "tag_fallback_invoke cv S sched = Inr [] \<or>
      tag_fallback_invoke cv S sched = Inr [Returned (Some ?r)]"
    using fallback_at_most_once [OF assms(2) w] by simp
  moreover have "\<forall>u \<in> set us. valid_type (fst u) \<longrightarrow> unqualified (decay (fst u))"
    by (simp add: decay_unqualified)
  ultimately show ?thesis
    using assms(1) by (simp add: sync_wait_fallback)
qed

theorem sync_wait_value_witness:
  "sync_wait no_conversions no_impls value_sender consumer_first =
     Inr [Returned (Some [(Named ''int'', 1), (Named ''std::string'', 97)])] \<and>
   unqualified (decay (LRef (Const (Named ''int''))))"
  using sync_wait_value [where cv = no_conversions and impls = no_impls and S = value_sender
      and ts = "[LRef (Const (Named ''int'')), Named ''std::string'']"
      and us = "[(LRef (Const (Named ''int'')), 1), (RRef (Named ''std::string''), 97)]"
      and sched = consumer_first]
  by (simp add: no_impls_def value_sender_def consumer_first_def
      is_completion_scheduler_tag_invocable_def decay_def valid_type_def)

text \<open>
  C2. A sender that completes with \<open>set_error(err)\<close>, the decayed type of \<open>err\<close> an
  alternative of \<open>error_type\<close>: once both threads have run, \<open>sync_wait\<close> has
  raised exactly once, in \<open>get_value\<close> on the caller's thread. It rethrows the
  exception a \<open>std::exception_ptr\<close> refers to and throws the value of any other
  alternative at its type; it never returns a value.
\<close>

theorem sync_wait_error:
  assumes "\<not> is_completion_scheduler_tag_invocable impls S"
    and "value_types S = [ts]"
    and "completion S = SetError err"
    and "decay (fst err) \<in> set (error_type S)"
  shows "(13 \<le> length sched \<longrightarrow>
          sync_wait cv impls S sched =
            Inr [Raised (if decay (fst err) = exception_ptr then Rethrown (snd err)
                         else Thrown (decay (fst err)) (snd err))]) \<and>
         (sync_wait cv impls S sched = Inr [] \<or>
          sync_wait cv impls S sched =
            Inr [Raised (if decay (fst err) = exception_ptr then Rethrown (snd err)
                         else Thrown (decay (fst err)) (snd err))]) \<and>
         sync_wait cv impls S sched \<noteq> Inr [Returned r]"
proof -
  let ?w = "ErrorAlt (decay (fst err)) (snd err)"
  have w: "receiver_write cv (error_type S) (map decay ts) (completion S) = Inr (Some ?w)"
    using assms(3,4) by (simp add: emplace_error_def)
  have g: "get_value (written (Some ?w)) =
      Raised (if decay (fst err) = exception_ptr then Rethrown (snd err)
              else Thrown (decay (fst err)) (snd err))"
    by (simp add: sync_wait_error_visitor_def)
  have "13 \<le> length sched \<longrightarrow> tag_fallback_invoke cv S sched = Inr [get_value (written (Some ?w))]"
    using fallback_delivers [OF assms(2) w] by simp
  moreover have "tag_fallback_invoke cv S sched = Inr [] \<or>
      tag_fallback_invoke cv S sched = Inr [get_value (written (Some ?w))]"
    using fallback_at_most_once [OF assms(2) w] by simp
  ultimately show ?thesis
    unfolding g using assms(1) by (auto simp: sync_wait_fallback)
qed

theorem sync_wait_error_witness:
  "sync_wait no_conversions no_impls typed_error_sender alternating =
     Inr [Raised (Thrown (Named ''std::error_code'') 7)] \<and>
   sync_wait no_conversions no_impls opaque_error_sender alternating = Inr [Raised (Rethrown 7)]"
  using sync_wait_error [where cv = no_conversions and impls = no_impls and S = typed_error_sender
      and ts = "[LRef (Const (Named ''int'')), Named ''std::string'']"
      and err = "(LRef (Named ''std::error_code''), 7)" and sched = alternating]
    sync_wait_error [where cv = no_conversions and impls = no_impls and S = opaque_error_sender
      and ts = "[LRef (Const (Named ''int'')), Named ''std::string'']"
      and err = "(exception_ptr, 7)" and sched = alternating]
  by (simp add: no_impls_def value_sender_def typed_error_sender_def opaque_error_sender_def
      alternating_def is_completion_scheduler_tag_invocable_def decay_def error_type_def
      unique_def prepend_def exception_ptr_def)

text \<open>
  C3. A sender that completes with \<open>set_stopped()\<close>: once both threads have run,
  \<open>sync_wait\<close> has returned exactly once, the empty optional, and it raises
  nothing. The callback writes nothing, and \<open>state.value\<close> holds
  \<open>hpx::monostate\<close> throughout the run.
\<close>

theorem sync_wait_stopped:
  fixes S :: "('v, 'sch) sender"
  assumes "\<not> is_completion_scheduler_tag_invocable impls S"
    and "value_types S = [ts]"
    and "completion S = SetStopped"
  shows "(13 \<le> length sched \<longrightarrow> sync_wait cv impls S sched = Inr [Returned None]) \<and>
         (sync_wait cv impls S sched = Inr [] \<or> sync_wait cv impls S sched = Inr [Returned None]) \<and>
         receiver_write cv (error_type S) (map decay ts) (completion S) = Inr None \<and>
         value_cell (state (exec sched (init_config None))) = (Monostate :: 'v cell)"
proof -
  have w: "receiver_write cv (error_type S) (map decay ts) (completion S) = Inr None"
    using assms(3) by simp
  have "13 \<le> length sched \<longrightarrow> tag_fallback_invoke cv S sched = Inr [Returned None]"
    using fallback_delivers [OF assms(2) w] by simp
  moreover have "tag_fallback_invoke cv S sched = Inr [] \<or>
      tag_fallback_invoke cv S sched = Inr [Returned None]"
    using fallback_at_most_once [OF assms(2) w] by simp
  moreover have "value_cell (state (exec sched (init_config None))) = (Monostate :: 'v cell)"
    using run_inv [of "None :: 'v cell option" sched] by (simp add: wait_inv_def)
  ultimately show ?thesis
    using assms(1) w by (simp add: sync_wait_fallback)
qed

theorem sync_wait_stopped_witness:
  "sync_wait no_conversions no_impls stopped_sender producer_first = Inr [Returned None] \<and>
   value_cell (state (exec producer_first (init_config None))) = (Monostate :: nat cell)"
  using sync_wait_stopped [where cv = no_conversions and impls = no_impls and S = stopped_sender
      and ts = "[LRef (Const (Named ''int'')), Named ''std::string'']"
      and sched = producer_first]
  by (simp add: no_impls_def value_sender_def stopped_sender_def producer_first_def
      is_completion_scheduler_tag_invocable_def)

text \<open>
  C4. Under every schedule of the caller and the producer: \<open>wait\<close> has
  returned only if the callback has written \<open>state.value\<close> and set
  \<open>set_called\<close>; the caller holds the lock at its second check and when it
  decides to block, and it blocks only with the flag unset; the producer holds
  the lock when it sets the flag and when it notifies; a caller still queued on
  the condition variable has its notification ahead of it; when neither thread
  can move both have finished; and 13 steps finish both.
\<close>

theorem no_lost_wakeup:
  fixes w :: "'v cell option"
  assumes "c = exec sched (init_config w)"
  shows "(released (consumer c) \<longrightarrow>
            set_called (state c) \<and> fired (producer c) \<and> value_cell (state c) = written w) \<and>
         (consumer c = C_recheck \<or> consumer c = C_cond_wait \<longrightarrow> mtx (state c) = Some Consumer) \<and>
         (consumer c = C_cond_wait \<longrightarrow> \<not> set_called (state c)) \<and>
         (producer c = P_set_called \<or> producer c = P_notify \<longrightarrow> mtx (state c) = Some Producer) \<and>
         (Consumer \<in> set (cond_var (state c)) \<longrightarrow> consumer c = C_blocked \<and> \<not> notified (producer c)) \<and>
         (sched_step t c = None \<longrightarrow> consumer c = C_done \<and> producer c = P_done) \<and>
         (13 \<le> length sched \<longrightarrow> consumer c = C_done \<and> producer c = P_done)"
proof -
  have inv: "wait_inv w c"
    unfolding assms by (rule run_inv)
  have "released (consumer c) \<longrightarrow>
      set_called (state c) \<and> fired (producer c) \<and> value_cell (state c) = written w"
    using inv by (cases "producer c") (auto simp: wait_inv_def)
  moreover have "consumer c = C_recheck \<or> consumer c = C_cond_wait \<longrightarrow>
      mtx (state c) = Some Consumer"
    using inv by (auto simp: wait_inv_def)
  moreover have "consumer c = C_cond_wait \<longrightarrow> \<not> set_called (state c)"
    using inv by (auto simp: wait_inv_def)
  moreover have "producer c = P_set_called \<or> producer c = P_notify \<longrightarrow>
      mtx (state c) = Some Producer"
    using inv by (auto simp: wait_inv_def)
  moreover have "Consumer \<in> set (cond_var (state c)) \<longrightarrow>
      consumer c = C_blocked \<and> \<not> notified (producer c)"
    using inv by (auto simp: wait_inv_def split: if_splits)
  moreover have "sched_step t c = None \<longrightarrow> consumer c = C_done \<and> producer c = P_done"
    using inv by (auto dest: sched_stuck_done)
  moreover have "13 \<le> length sched \<longrightarrow> consumer c = C_done \<and> producer c = P_done"
    unfolding assms by (simp add: run_done)
  ultimately show ?thesis by blast
qed

theorem no_lost_wakeup_witness:
  "consumer (exec consumer_first (init_config (Some (ResultAlt [(Named ''int'', 42 :: nat)])))) =
     C_done \<and>
   producer (exec consumer_first (init_config (Some (ResultAlt [(Named ''int'', 42 :: nat)])))) =
     P_done \<and>
   set_called (state (exec consumer_first
     (init_config (Some (ResultAlt [(Named ''int'', 42 :: nat)]))))) \<and>
   value_cell (state (exec consumer_first
     (init_config (Some (ResultAlt [(Named ''int'', 42 :: nat)]))))) =
     ResultAlt [(Named ''int'', 42)] \<and>
   consumer (exec [Consumer, Consumer, Consumer, Consumer]
     (init_config (Some (ResultAlt [(Named ''int'', 42 :: nat)])))) = C_cond_wait \<and>
   mtx (state (exec [Consumer, Consumer, Consumer, Consumer]
     (init_config (Some (ResultAlt [(Named ''int'', 42 :: nat)]))))) = Some Consumer \<and>
   \<not> set_called (state (exec [Consumer, Consumer, Consumer, Consumer]
     (init_config (Some (ResultAlt [(Named ''int'', 42 :: nat)])))))"
  using no_lost_wakeup [where sched = consumer_first
      and w = "Some (ResultAlt [(Named ''int'', 42 :: nat)])", OF refl]
    no_lost_wakeup [where sched = "[Consumer, Consumer, Consumer, Consumer]"
      and w = "Some (ResultAlt [(Named ''int'', 42 :: nat)])", OF refl]
  by (simp add: consumer_first_def init_config_def fresh_state_def sched_step_def
      consumer_step_def producer_step_def)

text \<open>
  C5, as stated, fails. The sender declares two value signatures and has a
  completion scheduler that customises \<open>sync_wait\<close>: the call is
  \<open>tag_override_invoke\<close>, which never instantiates \<open>sync_wait_receiver\<close>, and
  it returns what the scheduler's customisation returns. The generic engine
  would have rejected the same sender.
\<close>

theorem several_value_shapes_overridden:
  "1 < card (set (value_types scheduled_sender)) \<and>
   is_completion_scheduler_tag_invocable run_loop_impls scheduled_sender \<and>
   sync_wait no_conversions run_loop_impls scheduled_sender alternating =
     Inr [Returned (Some [(Named ''int'', 5)])] \<and>
   sync_wait no_conversions run_loop_impls scheduled_sender alternating \<noteq>
     Inl NotSingleVariant \<and>
   tag_fallback_invoke no_conversions scheduled_sender alternating = Inl NotSingleVariant"
  by (simp add: scheduled_sender_def two_shapes_sender_def value_sender_def
      run_loop_impls_def is_completion_scheduler_tag_invocable_def sync_wait_def
      tag_override_invoke_def tag_fallback_invoke_def single_result_type_def)

text \<open>
  C5, amended. On the generic engine, that is when no scheduler overrides
  \<open>sync_wait\<close> for the sender, a sender that declares more than one distinct
  value signature is rejected by \<open>single_variant_t\<close> whatever it would send
  and whatever the schedule: nothing runs. If the call yields a run at all the
  sender declares one signature, and \<open>single_result_type\<close> is formed exactly
  when it does: it is that signature, decayed.
\<close>

theorem several_value_shapes_rejected:
  assumes "\<not> is_completion_scheduler_tag_invocable impls S"
  shows "(1 < card (set (value_types S)) \<longrightarrow>
            (\<forall>sig sched'. sync_wait cv impls (S\<lparr>completion := sig\<rparr>) sched' = Inl NotSingleVariant)) \<and>
         (\<forall>r. sync_wait cv impls S sched = Inr r \<longrightarrow> (\<exists>ts. value_types S = [ts])) \<and>
         (single_result_type S = Inr tuple \<longleftrightarrow>
            (\<exists>ts. value_types S = [ts] \<and> tuple = map decay ts))"
proof -
  have no: "\<not> is_completion_scheduler_tag_invocable impls (S\<lparr>completion := sig\<rparr>)" for sig
    using assms by (simp add: is_completion_scheduler_tag_invocable_def)
  have "sync_wait cv impls (S\<lparr>completion := sig\<rparr>) sched' = Inl NotSingleVariant"
    if "1 < card (set (value_types S))" for sig sched'
    using that no [of sig]
    by (simp add: sync_wait_fallback tag_fallback_invoke_def single_result_type_def
        single_variant_many)
  moreover have "\<exists>ts. value_types S = [ts]" if "sync_wait cv impls S sched = Inr r" for r
    using that assms by (simp add: sync_wait_fallback fallback_Inr_single)
  ultimately show ?thesis
    using single_result_type_Inr [of S tuple] by blast
qed

theorem several_value_shapes_rejected_witness:
  "1 < card (set (value_types two_shapes_sender)) \<and>
   sync_wait no_conversions no_impls two_shapes_sender alternating = Inl NotSingleVariant \<and>
   sync_wait no_conversions no_impls (two_shapes_sender\<lparr>completion := SetStopped\<rparr>) [] = Inl NotSingleVariant \<and>
   single_result_type value_sender = Inr [Named ''int'', Named ''std::string'']"
  using several_value_shapes_rejected [where cv = no_conversions and impls = no_impls and S = two_shapes_sender
      and sched = alternating]
    several_value_shapes_rejected [where cv = no_conversions and impls = no_impls and S = value_sender
      and tuple = "[Named ''int'', Named ''std::string'']"]
  by (simp add: no_impls_def value_sender_def two_shapes_sender_def
      is_completion_scheduler_tag_invocable_def decay_def)

text \<open>
  C6. \<open>error_type\<close> begins with \<open>std::exception_ptr\<close>, has no type twice, and
  has the types the sender declares and \<open>std::exception_ptr\<close>, no others. An
  error captured as \<open>std::exception_ptr\<close> can be stored whatever the sender
  declares.
\<close>

theorem error_type_shape:
  "(\<exists>rest. error_type S = exception_ptr # rest) \<and>
   distinct (error_type S) \<and>
   set (error_type S) = insert exception_ptr (set (error_types S)) \<and>
   emplace_error cv (error_type S) (exception_ptr, v) = Inr (ErrorAlt exception_ptr v)"
proof -
  have "\<exists>rest. error_type S = exception_ptr # rest"
    unfolding error_type_def prepend_def by (rule unique_Cons)
  moreover have "distinct (error_type S)"
    by (simp add: error_type_def unique_distinct)
  moreover have s: "set (error_type S) = insert exception_ptr (set (error_types S))"
    by (simp add: error_type_def prepend_def unique_set)
  moreover have "emplace_error cv (error_type S) (exception_ptr, v) = Inr (ErrorAlt exception_ptr v)"
    by (simp add: emplace_error_def s decay_def exception_ptr_def)
  ultimately show ?thesis by blast
qed

theorem error_type_shape_witness:
  "error_type repeated_errors_sender = [exception_ptr, Named ''std::error_code'']"
  using error_type_shape [where S = repeated_errors_sender and cv = no_conversions]
  by (simp add: repeated_errors_sender_def value_sender_def error_type_def unique_def
      prepend_def exception_ptr_def)

text \<open>
  C7, as stated, fails. The sender declares \<open>std::error_code\<close> and sends an error
  of the class \<open>my_error\<close>, from which neither alternative is constructible:
  the error is not stored in the \<open>std::exception_ptr\<close> alternative; the
  \<open>emplace\<close> of the callback is ill-formed and the call is rejected.
\<close>

theorem undeclared_error_not_captured:
  "completion undeclared_error_sender = SetError (Named ''my_error'', 7) \<and>
   decay (Named ''my_error'') \<notin> set (error_types undeclared_error_sender) \<and>
   receiver_write no_conversions (error_type undeclared_error_sender)
     [Named ''int'', Named ''std::string''] (completion undeclared_error_sender) \<noteq>
     Inr (Some (ErrorAlt exception_ptr 7)) \<and>
   sync_wait no_conversions no_impls undeclared_error_sender consumer_first =
     Inl ErrorNotConstructible"
  by (simp add: undeclared_error_sender_def value_sender_def decay_def error_type_def
      unique_def prepend_def exception_ptr_def emplace_error_def sync_wait_def
      tag_override_invoke_def no_impls_def no_conversions_def tag_fallback_invoke_def
      single_result_type_def make_decayed_pack_def)

text \<open>
  C7, amended. An error whose decayed type is \<open>std::exception_ptr\<close> or a type
  the sender declares is stored in the alternative of that type, and
  \<open>state.value\<close> holds it once the callback has run. The receiver captures no
  other error into \<open>std::exception_ptr\<close>: an error of another type is stored
  in the alternative that the converting constructor of the variant selects
  for it, converted, and the callback is rejected statically when the
  constructor selects none.
\<close>

theorem set_error_placement:
  fixes S :: "('v, 'sch) sender" and cv :: "'v converting"
  shows "(decay (fst err) \<in> insert exception_ptr (set (error_types S)) \<longrightarrow>
            receiver_write cv (error_type S) tuple (SetError err) =
              Inr (Some (ErrorAlt (decay (fst err)) (snd err))) \<and>
            (13 \<le> length sched \<longrightarrow>
               value_cell (state (exec sched
                 (init_config (Some (ErrorAlt (decay (fst err)) (snd err)))))) =
               ErrorAlt (decay (fst err)) (snd err))) \<and>
         (decay (fst err) \<notin> insert exception_ptr (set (error_types S)) \<longrightarrow>
            (cv (decay (fst err)) (error_type S) = None \<longrightarrow>
               receiver_write cv (error_type S) tuple (SetError err) =
                 Inl ErrorNotConstructible) \<and>
            (\<forall>a f. cv (decay (fst err)) (error_type S) = Some (a, f) \<and>
                   a \<in> set (error_type S) \<longrightarrow>
               receiver_write cv (error_type S) tuple (SetError err) =
                 Inr (Some (ErrorAlt a (f (snd err))))))"
proof -
  let ?w = "ErrorAlt (decay (fst err)) (snd err)"
  have s: "set (error_type S) = insert exception_ptr (set (error_types S))"
    by (simp add: error_type_def prepend_def unique_set)
  have run: "value_cell (state (exec sched (init_config (Some ?w)))) = ?w"
    if "13 \<le> length sched"
  proof -
    have "producer (exec sched (init_config (Some ?w))) = P_done"
      using that by (simp add: run_done)
    then show ?thesis
      using run_inv [of "Some ?w" sched] by (simp add: wait_inv_def)
  qed
  show ?thesis
  proof (cases "decay (fst err) \<in> set (error_type S)")
    case True
    then have "receiver_write cv (error_type S) tuple (SetError err) = Inr (Some ?w)"
      by (simp add: emplace_error_def)
    with True run show ?thesis
      unfolding s by blast
  next
    case False
    then have "cv (decay (fst err)) (error_type S) = None \<longrightarrow>
        receiver_write cv (error_type S) tuple (SetError err) = Inl ErrorNotConstructible"
      by (simp add: emplace_error_def)
    moreover have "\<forall>a f. cv (decay (fst err)) (error_type S) = Some (a, f) \<and>
          a \<in> set (error_type S) \<longrightarrow>
        receiver_write cv (error_type S) tuple (SetError err) =
          Inr (Some (ErrorAlt a (f (snd err))))"
      using False by (simp add: emplace_error_def)
    ultimately show ?thesis
      using False unfolding s by blast
  qed
qed

theorem set_error_placement_witness:
  "receiver_write no_conversions (error_type typed_error_sender) []
     (SetError (LRef (Named ''std::error_code''), 7)) =
     Inr (Some (ErrorAlt (Named ''std::error_code'') 7)) \<and>
   value_cell (state (exec alternating
     (init_config (Some (ErrorAlt (Named ''std::error_code'') (7 :: nat)))))) =
     ErrorAlt (Named ''std::error_code'') 7 \<and>
   receiver_write no_conversions (error_type undeclared_error_sender) []
     (SetError (Named ''my_error'', 7)) = Inl ErrorNotConstructible \<and>
   receiver_write int_to_long (error_type widened_error_sender) []
     (SetError (Named ''int'', 7)) = Inr (Some (ErrorAlt (Named ''long'') 7))"
  using set_error_placement [where cv = no_conversions and S = typed_error_sender
      and tuple = "[]" and err = "(LRef (Named ''std::error_code''), 7)"
      and sched = alternating]
    set_error_placement [where cv = no_conversions and S = undeclared_error_sender
      and tuple = "[]" and err = "(Named ''my_error'', 7)" and sched = alternating]
    set_error_placement [where cv = int_to_long and S = widened_error_sender
      and tuple = "[]" and err = "(Named ''int'', 7)" and sched = alternating]
  by (simp add: typed_error_sender_def undeclared_error_sender_def widened_error_sender_def
      value_sender_def alternating_def decay_def exception_ptr_def no_conversions_def
      int_to_long_def error_type_def unique_def prepend_def)

text \<open>
  C8. The stage that \<open>sync_wait()\<close> returns, combined with a sender, gives
  what \<open>sync_wait\<close> gives on that sender: the same value, the same empty
  optional, the same error, the same rejection.
\<close>

theorem deferred_form:
  "pipe cv impls S sync_wait_deferred sched = sync_wait cv impls S sched"
  by (simp add: sync_wait_deferred_def)

theorem deferred_form_witness:
  "pipe no_conversions no_impls value_sender sync_wait_deferred consumer_first =
     Inr [Returned (Some [(Named ''int'', 1), (Named ''std::string'', 97)])] \<and>
   pipe no_conversions no_impls stopped_sender sync_wait_deferred consumer_first = Inr [Returned None] \<and>
   pipe no_conversions no_impls typed_error_sender sync_wait_deferred consumer_first =
     Inr [Raised (Thrown (Named ''std::error_code'') 7)]"
  using deferred_form [of no_conversions no_impls value_sender consumer_first]
    deferred_form [of no_conversions no_impls stopped_sender consumer_first]
    deferred_form [of no_conversions no_impls typed_error_sender consumer_first]
  by (simp add: sync_wait_def tag_override_invoke_def no_impls_def tag_fallback_invoke_def
      single_result_type_def make_decayed_pack_def value_sender_def stopped_sender_def
      typed_error_sender_def decay_def error_type_def unique_def prepend_def exception_ptr_def
      emplace_result_def emplace_error_def consumer_first_def init_config_def fresh_state_def
      sched_step_def consumer_step_def producer_step_def sync_wait_error_visitor_def)

text \<open>
  C9. When the sender has a completion scheduler for \<open>set_value_t\<close> and the
  scheduler customises \<open>sync_wait\<close>, the call is that customisation applied
  to the sender and the generic engine is not entered; otherwise the call is
  the generic engine. The choice looks at the sender's scheduler and the
  customisations only, not at the completion the sender sends.
\<close>

theorem scheduler_override_dispatch:
  "(is_completion_scheduler_tag_invocable impls S \<longrightarrow>
      (\<exists>scheduler impl. completion_scheduler S = Some scheduler \<and>
         impls scheduler = Some impl \<and>
         sync_wait cv impls S sched = impl S) \<and>
      dispatch impls S = OverrideTier) \<and>
   (\<not> is_completion_scheduler_tag_invocable impls S \<longrightarrow>
      sync_wait cv impls S sched = tag_fallback_invoke cv S sched \<and>
      dispatch impls S = FallbackTier) \<and>
   dispatch impls (S\<lparr>completion := sig\<rparr>) = dispatch impls S"
  by (auto simp: is_completion_scheduler_tag_invocable_def sync_wait_def dispatch_def
      tag_override_invoke_def split: option.splits)

theorem scheduler_override_dispatch_witness:
  "is_completion_scheduler_tag_invocable run_loop_impls scheduled_sender \<and>
   sync_wait no_conversions run_loop_impls scheduled_sender consumer_first =
     Inr [Returned (Some [(Named ''int'', 5)])] \<and>
   dispatch run_loop_impls scheduled_sender = OverrideTier \<and>
   tag_fallback_invoke no_conversions scheduled_sender consumer_first = Inl NotSingleVariant \<and>
   \<not> is_completion_scheduler_tag_invocable no_impls scheduled_sender \<and>
   sync_wait no_conversions no_impls scheduled_sender consumer_first = Inl NotSingleVariant \<and>
   dispatch no_impls scheduled_sender = FallbackTier"
  using scheduler_override_dispatch [where cv = no_conversions and impls = run_loop_impls and S = scheduled_sender
      and sched = consumer_first]
    scheduler_override_dispatch [where cv = no_conversions and impls = no_impls and S = scheduled_sender
      and sched = consumer_first]
  by (simp add: is_completion_scheduler_tag_invocable_def run_loop_impls_def no_impls_def
      scheduled_sender_def two_shapes_sender_def value_sender_def tag_fallback_invoke_def
      single_result_type_def)

text \<open>
  C10. A sender that completes with \<open>set_value()\<close>, no values: once both
  threads have run, \<open>sync_wait\<close> has returned the engaged optional of the empty
  tuple, which differs from the empty optional that the same sender gives when
  it completes with \<open>set_stopped()\<close>.
\<close>

theorem sync_wait_no_values:
  assumes "\<not> is_completion_scheduler_tag_invocable impls S"
    and "value_types S = [[]]"
    and "completion S = SetValue []"
    and "13 \<le> length sched"
  shows "sync_wait cv impls S sched = Inr [Returned (Some [])] \<and>
         sync_wait cv impls (S\<lparr>completion := SetStopped\<rparr>) sched = Inr [Returned None] \<and>
         sync_wait cv impls S sched \<noteq> sync_wait cv impls (S\<lparr>completion := SetStopped\<rparr>) sched"
proof -
  let ?S' = "S\<lparr>completion := SetStopped\<rparr>"
  have w: "receiver_write cv (error_type S) (map decay []) (completion S) = Inr (Some (ResultAlt []))"
    using assms(3) by (simp add: emplace_result_def)
  have a: "tag_fallback_invoke cv S sched = Inr [Returned (Some [])]"
    using fallback_delivers [OF assms(2) w assms(4)] by simp
  have v': "value_types ?S' = [[]]"
    using assms(2) by simp
  have w': "receiver_write cv (error_type ?S') (map decay []) (completion ?S') = Inr None"
    by simp
  have b: "tag_fallback_invoke cv ?S' sched = Inr [Returned None]"
    using fallback_delivers [OF v' w' assms(4)] by simp
  have no: "\<not> is_completion_scheduler_tag_invocable impls ?S'"
    using assms(1) by (simp add: is_completion_scheduler_tag_invocable_def)
  show ?thesis
    using assms(1) no a b by (simp add: sync_wait_fallback)
qed

theorem sync_wait_no_values_witness:
  "sync_wait no_conversions no_impls unit_sender producer_first = Inr [Returned (Some [])] \<and>
   sync_wait no_conversions no_impls (unit_sender\<lparr>completion := SetStopped\<rparr>) producer_first =
     Inr [Returned None]"
  using sync_wait_no_values [where cv = no_conversions and impls = no_impls and S = unit_sender
      and sched = producer_first]
  by (simp add: no_impls_def unit_sender_def value_sender_def producer_first_def
      is_completion_scheduler_tag_invocable_def)

end
